theory Spec2Isabelle
  imports Complex_Main
begin

section \<open>The control endpoint and the relay send\<close>

text \<open>
  Byte strings and text are both modelled as \<open>string\<close>: every string the control path
  handles is ASCII, so \<open>command_char.encode('ascii')\<close> is the identity here.
\<close>

type_synonym bytes = string

text \<open>
  \<open>str.lower()\<close>. Only the ASCII letters are mapped; every other character is left as
  it is. The keys of \<open>command_map\<close> are ASCII and contain no \<open>k\<close>, and the only
  non-ASCII code point whose lower case is an ASCII letter is the Kelvin sign (to \<open>k\<close>),
  so the lookup below succeeds for the same inputs as with Python's Unicode-aware
  \<open>lower\<close>.
\<close>

definition ascii_uppercase :: string where
  "ascii_uppercase = ''ABCDEFGHIJKLMNOPQRSTUVWXYZ''"

definition ascii_lowercase :: string where
  "ascii_lowercase = ''abcdefghijklmnopqrstuvwxyz''"

definition lower_char :: "char \<Rightarrow> char" where
  "lower_char c =
     (case map_of (zip ascii_uppercase ascii_lowercase) c of
        Some l \<Rightarrow> l
      | None \<Rightarrow> c)"

definition lower :: "string \<Rightarrow> string" where
  "lower s = map lower_char s"

text \<open>
  What the network does to one \<open>send_command_to_arduino_controller\<close> call: the
  connection and the send go through, or one of them raises \<open>socket.timeout\<close>,
  another \<open>socket.error\<close> (with its text), or any other exception (with its text).
\<close>

datatype net_fault = Socket_timeout | Socket_error string | Unexpected string

datatype net_outcome = Net_ok | Connect_fails net_fault | Sendall_fails net_fault

text \<open>The socket calls one relay send makes, in order.\<close>

datatype socket_call = Connect string nat | Sendall bytes

definition ARDUINO_CONTROLLER_HOST :: string where
  "ARDUINO_CONTROLLER_HOST = ''localhost''"

definition ARDUINO_CONTROLLER_PORT :: nat where
  "ARDUINO_CONTROLLER_PORT = 9000"

text \<open>The f-string fragment \<open>'{command_char}'\<close>: the text between two apostrophes.\<close>

definition quoted :: "string \<Rightarrow> string" where
  "quoted s = [CHR 0x27] @ s @ [CHR 0x27]"

definition fault_message :: "string \<Rightarrow> net_fault \<Rightarrow> string" where
  "fault_message command_char f =
     (case f of
        Socket_timeout \<Rightarrow> ''Timeout sending '' @ quoted command_char @ '' to Arduino Controller.''
      | Socket_error e \<Rightarrow> ''Socket error sending '' @ quoted command_char @ '': '' @ e
      | Unexpected e \<Rightarrow> ''Unexpected error sending '' @ quoted command_char @ '': '' @ e)"

text \<open>
  \<open>send_command_to_arduino_controller\<close> returns its message together with the socket
  calls it made. Every exception is turned into a message; none leaves the function.
\<close>

definition send_command_to_arduino_controller ::
    "net_outcome \<Rightarrow> string \<Rightarrow> string \<times> socket_call list" where
  "send_command_to_arduino_controller net command_char =
     (case net of
        Connect_fails f \<Rightarrow>
          (fault_message command_char f,
           [Connect ARDUINO_CONTROLLER_HOST ARDUINO_CONTROLLER_PORT])
      | Sendall_fails f \<Rightarrow>
          (fault_message command_char f,
           [Connect ARDUINO_CONTROLLER_HOST ARDUINO_CONTROLLER_PORT, Sendall command_char])
      | Net_ok \<Rightarrow>
          (''Command '' @ quoted command_char @ '' sent to Arduino Controller.'',
           [Connect ARDUINO_CONTROLLER_HOST ARDUINO_CONTROLLER_PORT, Sendall command_char]))"



definition command_map :: "string \<rightharpoonup> string" where
  "command_map =
     [''up'' \<mapsto> ''F'', ''down'' \<mapsto> ''B'', ''left'' \<mapsto> ''L'', ''right'' \<mapsto> ''R'',
      ''stop'' \<mapsto> ''S'']"

record response =
  http_code :: nat
  status :: string
  message :: string

text \<open>
  \<open>api_control_route\<close>: the JSON body and HTTP code, and the socket calls made while
  serving the request. \<open>if command_char:\<close> is a truth test, so an absent entry and an
  empty string both take the \<open>else\<close> branch.
\<close>

definition api_control_route :: "net_outcome \<Rightarrow> string \<Rightarrow> response \<times> socket_call list" where
  "api_control_route net direction =
     (case command_map (lower direction) of
        Some command_char \<Rightarrow>
          if command_char \<noteq> [] then
            (let (msg, calls) = send_command_to_arduino_controller net command_char
             in (\<lparr>http_code = 200, status = ''success'', message = msg\<rparr>, calls))
          else (\<lparr>http_code = 400, status = ''error'', message = ''Invalid direction''\<rparr>, [])
      | None \<Rightarrow> (\<lparr>http_code = 400, status = ''error'', message = ''Invalid direction''\<rparr>, []))"

text \<open>The five directions of the claim and the command character of each.\<close>

definition directions :: "(string \<times> string) list" where
  "directions =
     [(''up'', ''F''), (''down'', ''B''), (''left'', ''L''), (''right'', ''R''), (''stop'', ''S'')]"

section \<open>The camera handler\<close>

text \<open>
  Log calls have no effect on the state and are left out. Exceptions are the subclasses of
  \<open>Exception\<close> that the handlers of the source name or catch; time is the reading of
  \<open>time.perf_counter()\<close>, taken as a real number of seconds.
\<close>

datatype py_exn =
  PiCameraError | PiCameraNotRecording | AttributeError | RuntimeError | OtherException

text \<open>
  A \<open>PiCamera\<close> object: its \<open>closed\<close> property, how often \<open>close()\<close> was called on
  it, and the settings written to it. The library is not part of the repository, so
  whether \<open>close()\<close> raises is a parameter fixed when the object is made; a call that
  raises leaves \<open>closed\<close> as it was.
\<close>

record picamera =
  cam_closed :: bool
  close_calls :: nat
  close_raises :: "py_exn option"
  cam_resolution :: "(nat \<times> nat) option"
  cam_framerate :: "nat option"

text \<open>
  The \<open>CameraHandler\<close> instance with the objects it refers to. \<open>camera\<close> and \<open>thread\<close>
  are references: indices into \<open>devices\<close>, the \<open>PiCamera\<close> objects made so far, and
  \<open>threads\<close>, the \<open>is_alive()\<close> flag of every thread made so far. \<open>has_attrs\<close> says
  whether the constructor went past its capability check: when it is false only \<open>camera\<close>
  and \<open>running\<close> exist, the other handler fields hold placeholders, and reading one
  of them raises \<open>AttributeError\<close>. \<open>lock\<close> is the thread holding \<open>self.lock\<close>.
\<close>

record world =
  has_attrs :: bool
  camera :: "nat option"
  frame_bytes :: "bytes option"
  running :: bool
  lock :: "nat option"
  resolution :: "nat \<times> nat"
  framerate :: nat
  jpeg_quality :: nat
  thread :: "nat option"
  last_frame_time :: real
  devices :: "picamera list"
  threads :: "bool list"

text \<open>\<open>CameraHandler.__init__\<close> in a process that has made no camera and no thread yet.\<close>

definition init :: "bool \<Rightarrow> nat \<times> nat \<Rightarrow> nat \<Rightarrow> nat \<Rightarrow> world" where
  "init PICAMERA_AVAILABLE res fr q =
     (if \<not> PICAMERA_AVAILABLE then
        \<lparr>has_attrs = False, camera = None, frame_bytes = None, running = False,
         lock = None, resolution = (0, 0), framerate = 0, jpeg_quality = 0, thread = None,
         last_frame_time = 0, devices = [], threads = []\<rparr>
      else
        \<lparr>has_attrs = True, camera = None, frame_bytes = None, running = False,
         lock = None, resolution = res, framerate = fr, jpeg_quality = q, thread = None,
         last_frame_time = 0, devices = [], threads = []\<rparr>)"

text \<open>Python's truth test on \<open>self.frame_bytes\<close>: \<open>None\<close> and \<open>b''\<close> are false.\<close>

fun truthy :: "bytes option \<Rightarrow> bool" where
  "truthy None = False"
| "truthy (Some b) = (b \<noteq> [])"

text \<open>\<open>self.camera.close()\<close> on the object \<open>c\<close>: the exception it raises, if any.\<close>

definition camera_close :: "nat \<Rightarrow> world \<Rightarrow> py_exn option \<times> world" where
  "camera_close c w =
     (let d = devices w ! c;
          d' = d\<lparr>close_calls := Suc (close_calls d),
                 cam_closed := (if close_raises d = None then True else cam_closed d)\<rparr>
      in (close_raises d, w\<lparr>devices := (devices w)[c := d']\<rparr>))"

definition new_picamera :: "py_exn option \<Rightarrow> picamera" where
  "new_picamera cr =
     \<lparr>cam_closed = False, close_calls = 0, close_raises = cr, cam_resolution = None,
      cam_framerate = None\<rparr>"

definition thread_is_alive :: "world \<Rightarrow> bool" where
  "thread_is_alive w = (case thread w of None \<Rightarrow> False | Some t \<Rightarrow> threads w ! t)"

text \<open>The capture thread ends when \<open>_capture_loop\<close> returns.\<close>

definition thread_exit :: "world \<Rightarrow> world" where
  "thread_exit w =
     (case thread w of None \<Rightarrow> w | Some t \<Rightarrow> w\<lparr>threads := (threads w)[t := False]\<rparr>)"

subsection \<open>start\<close>

text \<open>
  Where \<open>start()\<close> meets an exception, if anywhere: in \<open>picamera.PiCamera()\<close>, in one of
  the two configuration writes, or in \<open>self.thread.start()\<close>.
\<close>

datatype start_stage = Opening | Set_resolution | Set_framerate | Thread_start

fun raised_at :: "start_stage \<Rightarrow> (start_stage \<times> py_exn) option \<Rightarrow> bool" where
  "raised_at st None = False"
| "raised_at st (Some (st', e)) = (st = st')"

text \<open>
  The two \<open>except\<close> bodies of \<open>start()\<close> (lines 126 to 133), which are the same but for
  the log text. \<open>close()\<close> is not guarded here: an exception it raises leaves \<open>start()\<close>
  and the assignment \<open>self.camera = None\<close> is not reached.
\<close>

definition start_except :: "world \<Rightarrow> py_exn option \<times> world" where
  "start_except w =
     (let w1 = w\<lparr>running := False\<rparr>
      in case camera w1 of
           None \<Rightarrow> (None, w1)
         | Some c \<Rightarrow>
             (case camera_close c w1 of
                (Some e, w2) \<Rightarrow> (Some e, w2)
              | (None, w2) \<Rightarrow> (None, w2\<lparr>camera := None\<rparr>)))"

definition set_camera_attr :: "(picamera \<Rightarrow> picamera) \<Rightarrow> world \<Rightarrow> world" where
  "set_camera_attr f w =
     (case camera w of
        None \<Rightarrow> w
      | Some c \<Rightarrow> w\<lparr>devices := (devices w)[c := f (devices w ! c)]\<rparr>)"

text \<open>
  \<open>CameraHandler.start\<close>. \<open>fault\<close> is where the environment raises, \<open>cr\<close> is how the
  new camera object answers \<open>close()\<close>. The result is the exception that leaves
  \<open>start()\<close>, if any, and the state it leaves behind.
\<close>

definition start ::
    "bool \<Rightarrow> (start_stage \<times> py_exn) option \<Rightarrow> py_exn option \<Rightarrow> world
     \<Rightarrow> py_exn option \<times> world" where
  "start PICAMERA_AVAILABLE fault cr w =
     (if \<not> PICAMERA_AVAILABLE \<or> camera w \<noteq> None then (None, w)
      else if running w then (None, w)
      else if raised_at Opening fault then start_except w
      else
        let w1 = w\<lparr>devices := devices w @ [new_picamera cr],
                   camera := Some (length (devices w))\<rparr>
        in if \<not> has_attrs w1 \<or> raised_at Set_resolution fault then start_except w1
           else
             let w2 = set_camera_attr (\<lambda>d. d\<lparr>cam_resolution := Some (resolution w1)\<rparr>) w1
             in if raised_at Set_framerate fault then start_except w2
                else
                  let w3 = set_camera_attr (\<lambda>d. d\<lparr>cam_framerate := Some (framerate w2)\<rparr>) w2;
                      w4 = w3\<lparr>running := True\<rparr>;
                      w5 = w4\<lparr>thread := Some (length (threads w4)),
                              threads := threads w4 @ [\<not> raised_at Thread_start fault]\<rparr>
                  in if raised_at Thread_start fault then start_except w5 else (None, w5))"

subsection \<open>The capture loop\<close>

text \<open>
  What \<open>capture_continuous\<close> hands to the \<open>for\<close> loop, one event per iteration: a frame
  (the value of the stream, and the clock reading taken at line 147 if it is published),
  an exception, or the end of the iteration.
\<close>

datatype capture_event = Frame bytes real | Raise py_exn | Stream_end

datatype loop_status = Blocked | Left | Raised py_exn

text \<open>
  The \<open>for\<close> loop of lines 140 to 150 over the events received so far. \<open>Blocked\<close>: the
  events are used up and the thread waits in \<open>capture_continuous\<close> for the next one.
\<close>

fun capture_body :: "capture_event list \<Rightarrow> world \<Rightarrow> loop_status \<times> world" where
  "capture_body [] w = (Blocked, w)"
| "capture_body (Frame b t # evs) w =
     (if \<not> running w then (Left, w)
      else capture_body evs (w\<lparr>frame_bytes := Some b, last_frame_time := t\<rparr>))"
| "capture_body (Raise e # evs) w = (Raised e, w)"
| "capture_body (Stream_end # evs) w = (Left, w)"

text \<open>
  The \<open>finally\<close> block of lines 166 to 177. An exception of \<open>close()\<close> is caught and
  logged.
\<close>

definition capture_finally :: "world \<Rightarrow> world" where
  "capture_finally w =
     (let w1 = w\<lparr>running := False\<rparr>;
          w2 = (case camera w1 of
                  None \<Rightarrow> w1
                | Some c \<Rightarrow>
                    if \<not> cam_closed (devices w1 ! c) then snd (camera_close c w1) else w1)
      in w2\<lparr>camera := None\<rparr>)"

text \<open>
  The \<open>try\<close> statement of \<open>_capture_loop\<close> from line 139 on. Each \<open>except\<close> clause only
  logs, and the last one catches every \<open>Exception\<close>, so the exception that leaves the
  function is \<open>None\<close> on every path. Reading \<open>self.jpeg_quality\<close> on an object without
  that attribute raises inside the \<open>try\<close>.
\<close>

definition capture_resume :: "capture_event list \<Rightarrow> world \<Rightarrow> py_exn option \<times> world" where
  "capture_resume evs w =
     (if \<not> has_attrs w then (None, thread_exit (capture_finally w))
      else case capture_body evs w of
             (Blocked, w') \<Rightarrow> (None, w')
           | (Left, w') \<Rightarrow> (None, thread_exit (capture_finally w'))
           | (Raised e, w') \<Rightarrow> (None, thread_exit (capture_finally w')))"

text \<open>\<open>CameraHandler._capture_loop\<close> from its first line, run by the capture thread.\<close>

definition capture_loop ::
    "bool \<Rightarrow> capture_event list \<Rightarrow> world \<Rightarrow> py_exn option \<times> world" where
  "capture_loop PICAMERA_AVAILABLE evs w =
     (if \<not> PICAMERA_AVAILABLE \<or> camera w = None then (None, thread_exit w)
      else capture_resume evs w)"

text \<open>
  Further progress of a capture thread that is already inside the loop: none once the
  thread has ended.
\<close>

definition capture_thread_run :: "capture_event list \<Rightarrow> world \<Rightarrow> world" where
  "capture_thread_run evs w = (if thread_is_alive w then snd (capture_resume evs w) else w)"

subsection \<open>get_frame_jpeg_bytes and stop\<close>

text \<open>
  \<open>CameraHandler.get_frame_jpeg_bytes\<close>, called when the lock is free; \<open>now\<close> is the
  clock reading of line 183. The source subtracts floats; rounding to nearest is
  monotone and leaves 1.0 exact, so an age of one second or more never compares below
  1.0 there either.
\<close>

definition get_frame_jpeg_bytes :: "bool \<Rightarrow> real \<Rightarrow> world \<Rightarrow> py_exn + bytes option" where
  "get_frame_jpeg_bytes PICAMERA_AVAILABLE now w =
     (if \<not> PICAMERA_AVAILABLE then Inr None
      else if \<not> has_attrs w then Inl AttributeError
      else if truthy (frame_bytes w) \<and> now - last_frame_time w < 1 then Inr (frame_bytes w)
      else Inr None)"

text \<open>
  \<open>CameraHandler.stop\<close>. \<open>join_evs\<close> are the events the capture thread receives while
  \<open>stop()\<close> waits in \<open>join(timeout=3.0)\<close>: with \<open>running\<close> false the first event ends
  the thread, and no event means that the thread stays blocked in the device and the
  join times out. A loop iteration and the \<open>finally\<close> block of the thread are taken as
  indivisible with respect to \<open>stop()\<close>.
\<close>

definition stop :: "bool \<Rightarrow> capture_event list \<Rightarrow> world \<Rightarrow> py_exn option \<times> world" where
  "stop PICAMERA_AVAILABLE join_evs w =
     (if \<not> PICAMERA_AVAILABLE then (None, w)
      else
        let w1 = w\<lparr>running := False\<rparr>
        in if \<not> has_attrs w1 then (Some AttributeError, w1)
           else
             let w2 = (if thread w1 \<noteq> None \<and> thread_is_alive w1
                       then capture_thread_run join_evs w1 else w1);
                 w3 = (case camera w2 of
                         None \<Rightarrow> w2
                       | Some c \<Rightarrow>
                           if \<not> cam_closed (devices w2 ! c) then snd (camera_close c w2)
                           else w2)
             in (None, w3\<lparr>camera := None, frame_bytes := None\<rparr>))"

subsection \<open>One iteration of generate_video_frames\<close>

definition frame_chunk :: "bytes \<Rightarrow> bytes" where
  "frame_chunk b =
     ''--frame'' @ [CHR 0x0D, CHR 0x0A] @ ''Content-Type: image/jpeg''
       @ [CHR 0x0D, CHR 0x0A, CHR 0x0D, CHR 0x0A] @ b @ [CHR 0x0D, CHR 0x0A]"

text \<open>
  The three sleeps of the generator: \<open>min_stream_interval\<close>, half of it, and the one
  second after a placeholder.
\<close>

datatype pause = Stream_interval | Half_interval | Offline_interval

datatype gen_step = Emit bytes pause | Skip pause | Finished

text \<open>
  One pass of the \<open>while flask_running\<close> loop. \<open>camera_handler\<close> is the global, \<open>None\<close>
  when no handler was made; \<open>placeholder\<close> is the image the placeholder branch builds
  (empty when it cannot). An exception inside the loop is caught by the generator's own
  handler and ends the stream.
\<close>

definition stream_iteration ::
    "bool \<Rightarrow> bool \<Rightarrow> bytes \<Rightarrow> real \<Rightarrow> world option \<Rightarrow> gen_step" where
  "stream_iteration flask_running PICAMERA_AVAILABLE placeholder now camera_handler =
     (if \<not> flask_running then Finished
      else case camera_handler of
             None \<Rightarrow> Emit (frame_chunk placeholder) Offline_interval
           | Some w \<Rightarrow>
               if \<not> running w \<or> \<not> PICAMERA_AVAILABLE
               then Emit (frame_chunk placeholder) Offline_interval
               else (case get_frame_jpeg_bytes PICAMERA_AVAILABLE now w of
                       Inl e \<Rightarrow> Finished
                     | Inr None \<Rightarrow> Skip Half_interval
                     | Inr (Some jpeg_bytes) \<Rightarrow>
                         if jpeg_bytes \<noteq> [] then Emit (frame_chunk jpeg_bytes) Stream_interval
                         else Skip Half_interval))"

subsection \<open>The handler made by main\<close>

text \<open>
  \<open>main()\<close> builds the handler with \<open>PICAMERA_RESOLUTION\<close>, \<open>PICAMERA_FPS\<close> and
  \<open>JPEG_QUALITY\<close>, and starts it.
\<close>

definition main_handler :: world where
  "main_handler = init True (640, 480) 20 85"

definition started_handler :: world where
  "started_handler = snd (start True None None main_handler)"


text \<open>The slot after a run of frames was published: the last one, if any.\<close>

definition last_published :: "(bytes \<times> real) list \<Rightarrow> world \<Rightarrow> world" where
  "last_published fs w =
     (if fs = [] then w
      else w\<lparr>frame_bytes := Some (fst (last fs)), last_frame_time := snd (last fs)\<rparr>)"



section \<open>The frame slot under the lock, statement by statement\<close>

text \<open>
  The two critical sections, lines 145 to 147 of \<open>_capture_loop\<close> and lines 181 to 185
  of \<open>get_frame_jpeg_bytes\<close>, run by any number of threads under any schedule. Each
  thread has a program counter; a step runs one statement of one thread; entering
  \<open>with self.lock\<close> is possible only while no thread holds the lock, and a thread that
  tries while it is held stays where it is.
\<close>

datatype pc =
  Idle
  | Pub_wait bytes    \<comment> \<open>at line 145 with \<open>stream.getvalue()\<close> equal to the bytes\<close>
  | Pub_store bytes   \<comment> \<open>lock held, before line 146\<close>
  | Pub_stamp bytes   \<comment> \<open>lock held, before line 147\<close>
  | Pub_exit          \<comment> \<open>lock held, leaving the \<open>with\<close> block\<close>
  | Read_wait         \<comment> \<open>at line 181\<close>
  | Read_test         \<comment> \<open>lock held, line 183: truth test of \<open>self.frame_bytes\<close>\<close>
  | Read_age          \<comment> \<open>lock held, line 183: the age comparison\<close>
  | Read_return real  \<comment> \<open>lock held, before line 184; the time stamp that was compared\<close>
  | Read_exit         \<comment> \<open>lock held, leaving the \<open>with\<close> block\<close>

text \<open>
  The state of the handler, extended by the program counters and by two logs that the
  code does not have: every pair a publish wrote, and what every read returned at line
  184 together with the time stamp it had compared at line 183.
\<close>

record conc = world +
  pcs :: "nat \<Rightarrow> pc"
  published :: "(bytes \<times> real) list"
  returned :: "(bytes option \<times> real) list"

datatype action =
  Call_publish nat bytes  \<comment> \<open>the thread reaches line 145 holding a new frame\<close>
  | Call_read nat         \<comment> \<open>the thread calls \<open>get_frame_jpeg_bytes\<close>\<close>
  | Step nat real         \<comment> \<open>the thread runs its next statement; the clock reads the real\<close>

definition goto :: "nat \<Rightarrow> pc \<Rightarrow> conc \<Rightarrow> conc" where
  "goto i p s = s\<lparr>pcs := (pcs s)(i := p)\<rparr>"

fun step :: "action \<Rightarrow> conc \<Rightarrow> conc" where
  "step (Call_publish i b) s = (if pcs s i = Idle then goto i (Pub_wait b) s else s)"
| "step (Call_read i) s = (if pcs s i = Idle then goto i Read_wait s else s)"
| "step (Step i now) s =
     (case pcs s i of
        Idle \<Rightarrow> s
      | Pub_wait b \<Rightarrow> if lock s = None then goto i (Pub_store b) (s\<lparr>lock := Some i\<rparr>) else s
      | Pub_store b \<Rightarrow> goto i (Pub_stamp b) (s\<lparr>frame_bytes := Some b\<rparr>)
      | Pub_stamp b \<Rightarrow>
          goto i Pub_exit (s\<lparr>last_frame_time := now, published := (b, now) # published s\<rparr>)
      | Pub_exit \<Rightarrow> goto i Idle (s\<lparr>lock := None\<rparr>)
      | Read_wait \<Rightarrow> if lock s = None then goto i Read_test (s\<lparr>lock := Some i\<rparr>) else s
      | Read_test \<Rightarrow> if truthy (frame_bytes s) then goto i Read_age s else goto i Read_exit s
      | Read_age \<Rightarrow>
          if now - last_frame_time s < 1 then goto i (Read_return (last_frame_time s)) s
          else goto i Read_exit s
      | Read_return t \<Rightarrow>
          goto i Read_exit (s\<lparr>returned := (frame_bytes s, t) # returned s\<rparr>)
      | Read_exit \<Rightarrow> goto i Idle (s\<lparr>lock := None\<rparr>))"

fun run :: "action list \<Rightarrow> conc \<Rightarrow> conc" where
  "run [] s = s"
| "run (a # as) s = run as (step a s)"

text \<open>The handler after its constructor, every thread outside both critical sections.\<close>

definition conc_init :: conc where
  "conc_init =
     \<lparr>has_attrs = True, camera = None, frame_bytes = None, running = False,
      lock = None, resolution = (640, 480), framerate = 20, jpeg_quality = 85, thread = None,
      last_frame_time = 0, devices = [], threads = [],
      pcs = (\<lambda>i. Idle), published = [], returned = []\<rparr>"

text \<open>The program counters at which a thread is inside a \<open>with self.lock\<close> block.\<close>

fun holding :: "pc \<Rightarrow> bool" where
  "holding Idle = False"
| "holding (Pub_wait b) = False"
| "holding Read_wait = False"
| "holding p = True"

text \<open>
  The slot holds a pair that one publish wrote (or no frame at all).
\<close>

definition consistent :: "conc \<Rightarrow> bool" where
  "consistent s \<longleftrightarrow>
     (case frame_bytes s of
        None \<Rightarrow> True
      | Some b \<Rightarrow> (b, last_frame_time s) \<in> set (published s))"

text \<open>
  The invariant of every schedule: only the lock holder is inside a critical section;
  the slot is consistent except between lines 146 and 147 of the lock holder, where it
  already holds the holder's bytes; a reader past the truth test sees a frame, and a
  reader at line 184 compared the time stamp that is stored now; every returned pair
  was published.
\<close>

definition slot_inv :: "conc \<Rightarrow> bool" where
  "slot_inv s \<longleftrightarrow>
     (\<forall>j. holding (pcs s j) \<longrightarrow> lock s = Some j) \<and>
     (case lock s of
        None \<Rightarrow> consistent s
      | Some i \<Rightarrow>
          (case pcs s i of
             Pub_stamp b \<Rightarrow> frame_bytes s = Some b
           | Read_age \<Rightarrow> truthy (frame_bytes s) \<and> consistent s
           | Read_return t \<Rightarrow>
               t = last_frame_time s \<and> truthy (frame_bytes s) \<and> consistent s
           | _ \<Rightarrow> consistent s)) \<and>
     (\<forall>(r, t) \<in> set (returned s). \<exists>b. r = Some b \<and> (b, t) \<in> set (published s))"

text \<open>A schedule in which a reader has to wait for the publisher.\<close>

definition example_schedule :: "action list" where
  "example_schedule =
     [Call_publish 0 ''JPEG'', Step 0 0, Step 0 0, Call_read 1, Step 1 0, Step 0 5,
      Step 0 0, Step 1 0, Step 1 0, Step 1 (5.5), Step 1 0, Step 1 0]"

text \<open>
  A schedule that stops between lines 146 and 147 of a second publish, with a reader
  waiting for the lock.
\<close>

definition torn_schedule :: "action list" where
  "torn_schedule =
     [Call_publish 0 ''OLD'', Step 0 0, Step 0 0, Step 0 5, Step 0 0,
      Call_publish 0 ''NEW'', Step 0 6, Step 0 6, Call_read 1, Step 1 6, Step 1 6]"

section \<open>Properties of the control endpoint\<close>

lemma command_map_directions: "command_map = map_of (rev directions)"
  by (rule ext) (simp add: command_map_def directions_def)



lemma lower_of_direction: "(k, c) \<in> set directions \<Longrightarrow> lower k = k"
  by (auto simp: directions_def lower_def lower_char_def ascii_uppercase_def
      ascii_lowercase_def)







text \<open>
  Claim C4, evaluated at a failed relay send. For direction \<open>up\<close>, a connection that
  times out and a send that meets a socket error both give HTTP 200 with status
  \<open>success\<close>, the same code and status as a send that went through; only the free text
  of \<open>message\<close> differs. The response is not a failure result.
\<close>

theorem control_route_failed_send_reports_success:
  "api_control_route (Connect_fails Socket_timeout) ''up'' =
     (\<lparr>http_code = 200, status = ''success'',
       message = ''Timeout sending 'F' to Arduino Controller.''\<rparr>,
      [Connect ARDUINO_CONTROLLER_HOST ARDUINO_CONTROLLER_PORT]) \<and>
   api_control_route (Sendall_fails (Socket_error ''Broken pipe'')) ''up'' =
     (\<lparr>http_code = 200, status = ''success'',
       message = ''Socket error sending 'F': Broken pipe''\<rparr>,
      [Connect ARDUINO_CONTROLLER_HOST ARDUINO_CONTROLLER_PORT, Sendall ''F'']) \<and>
   status (fst (api_control_route Net_ok ''up'')) = ''success'' \<and>
   http_code (fst (api_control_route Net_ok ''up'')) = 200"
  by (simp add: api_control_route_def command_map_def lower_def lower_char_def
      ascii_uppercase_def ascii_lowercase_def send_command_to_arduino_controller_def
      fault_message_def quoted_def)




section \<open>Properties of the camera handler\<close>

lemma started_handler_eq:
  "started_handler =
     \<lparr>has_attrs = True, camera = Some 0, frame_bytes = None, running = True,
      lock = None, resolution = (640, 480), framerate = 20, jpeg_quality = 85,
      thread = Some 0, last_frame_time = 0,
      devices = [\<lparr>cam_closed = False, close_calls = 0, close_raises = None,
                   cam_resolution = Some (640, 480), cam_framerate = Some 20\<rparr>],
      threads = [True]\<rparr>"
  by (simp add: started_handler_def main_handler_def init_def start_def Let_def
      new_picamera_def set_camera_attr_def)

lemma one_frame_eq:
  "snd (capture_loop True [Frame ''JPEG'' 10] started_handler) =
     started_handler\<lparr>frame_bytes := Some ''JPEG'', last_frame_time := 10\<rparr>"
  by (simp add: started_handler_eq capture_loop_def capture_resume_def)

text \<open>
  Claim C9: when \<open>running\<close> is true, \<open>start()\<close> returns without raising and leaves the
  whole state as it was: the handler fields, the camera objects and the threads.
\<close>

theorem start_when_running_is_noop:
  "running w \<Longrightarrow> start PICAMERA_AVAILABLE fault cr w = (None, w)"
  by (simp add: start_def)

theorem start_when_running_is_noop_witness:
  "running started_handler \<and> camera started_handler = Some 0 \<and>
   thread_is_alive started_handler \<and>
   start True None None started_handler = (None, started_handler)"
proof -
  have r: "running started_handler" by (simp add: started_handler_eq)
  show ?thesis
    using r start_when_running_is_noop[OF r, of True None None]
    by (simp add: started_handler_eq thread_is_alive_def)
qed

text \<open>
  Claim C10: without the capability the constructor leaves only \<open>camera\<close> (\<open>None\<close>) and
  \<open>running\<close> (false) set, and on any handler \<open>start()\<close> and \<open>stop()\<close> return without
  raising and without changing anything, and \<open>get_frame_jpeg_bytes()\<close> returns \<open>None\<close>.
\<close>

theorem capability_absent_methods_return_early:
  "\<not> has_attrs (init False res fr q) \<and>
   camera (init False res fr q) = None \<and>
   \<not> running (init False res fr q) \<and>
   start False fault cr w = (None, w) \<and>
   stop False join_evs w = (None, w) \<and>
   get_frame_jpeg_bytes False now w = Inr None"
  by (simp add: init_def start_def stop_def get_frame_jpeg_bytes_def)

theorem capability_absent_methods_return_early_witness:
  "\<not> has_attrs (init False (640, 480) 20 85) \<and>
   start False None None (init False (640, 480) 20 85) = (None, init False (640, 480) 20 85) \<and>
   stop False [] (init False (640, 480) 20 85) = (None, init False (640, 480) 20 85) \<and>
   get_frame_jpeg_bytes False 3 (init False (640, 480) 20 85) = Inr None"
  using capability_absent_methods_return_early
    [of "(640, 480)" 20 85 None None "init False (640, 480) 20 85" "[]" 3]
  by simp

text \<open>
  The guards are what keeps the unset attributes from being read: on the same object,
  were the capability flag true, \<open>get_frame_jpeg_bytes()\<close> and \<open>stop()\<close> would raise.
\<close>

lemma unset_attributes_raise_without_guard:
  "get_frame_jpeg_bytes True now (init False res fr q) = Inl AttributeError \<and>
   fst (stop True join_evs (init False res fr q)) = Some AttributeError"
  by (simp add: init_def stop_def get_frame_jpeg_bytes_def Let_def)

text \<open>
  Claim C5: when the stored frame is one second old or older at the clock reading of the
  read, \<open>get_frame_jpeg_bytes()\<close> returns \<open>None\<close>; an iteration of the generator does
  exactly what it would do with an empty slot; and when it reads the slot at all (server
  up, producer running) it yields nothing and sleeps half the stream interval.
\<close>

theorem stale_frame_never_emitted:
  assumes "has_attrs w" and "frame_bytes w = Some b" and "1 \<le> now - last_frame_time w"
  shows "get_frame_jpeg_bytes PICAMERA_AVAILABLE now w = Inr None \<and>
         stream_iteration flask_running PICAMERA_AVAILABLE placeholder now (Some w) =
           stream_iteration flask_running PICAMERA_AVAILABLE placeholder now
             (Some (w\<lparr>frame_bytes := None\<rparr>)) \<and>
         (flask_running \<and> running w \<and> PICAMERA_AVAILABLE \<longrightarrow>
            stream_iteration flask_running PICAMERA_AVAILABLE placeholder now (Some w) =
              Skip Half_interval)"
  using assms by (simp add: get_frame_jpeg_bytes_def stream_iteration_def)

theorem stale_frame_never_emitted_witness:
  "get_frame_jpeg_bytes True 11
     (snd (capture_loop True [Frame ''JPEG'' 10] started_handler)) = Inr None \<and>
   stream_iteration True True ''offline'' 11
     (Some (snd (capture_loop True [Frame ''JPEG'' 10] started_handler))) =
     Skip Half_interval \<and>
   get_frame_jpeg_bytes True (10.2)
     (snd (capture_loop True [Frame ''JPEG'' 10] started_handler)) = Inr (Some ''JPEG'')"
proof -
  let ?w = "snd (capture_loop True [Frame ''JPEG'' 10] started_handler)"
  have a: "has_attrs ?w" and b: "frame_bytes ?w = Some ''JPEG''"
    and c: "1 \<le> 11 - last_frame_time ?w" and d: "running ?w"
    unfolding one_frame_eq by (simp_all add: started_handler_eq)
  have e: "get_frame_jpeg_bytes True (10.2) ?w = Inr (Some ''JPEG'')"
    unfolding one_frame_eq by (simp add: started_handler_eq get_frame_jpeg_bytes_def)
  note t = stale_frame_never_emitted[OF a b c, of True True "''offline''"]
  from t d have "stream_iteration True True ''offline'' 11 (Some ?w) = Skip Half_interval"
    by blast
  with t e show ?thesis by blast
qed

subsection \<open>A failed start\<close>






text \<open>
  What the unguarded \<open>close()\<close> of the handlers means: were \<open>close()\<close> itself to raise
  after a failed configuration write, its exception would leave \<open>start()\<close> and the
  handle would stay set.
\<close>

lemma start_cleanup_close_raises:
  "start True (Some (Set_resolution, PiCameraError)) (Some RuntimeError) main_handler =
     (Some RuntimeError,
      main_handler\<lparr>camera := Some 0, devices :=
        [\<lparr>cam_closed = False, close_calls = 1, close_raises = Some RuntimeError,
          cam_resolution = None, cam_framerate = None\<rparr>]\<rparr>)"
  by (simp add: main_handler_def init_def start_def Let_def new_picamera_def
        start_except_def camera_close_def)

subsection \<open>A device fault in the capture loop\<close>


lemma last_published_fields [simp]:
  "running (last_published fs w) = running w"
  "camera (last_published fs w) = camera w"
  "has_attrs (last_published fs w) = has_attrs w"
  "devices (last_published fs w) = devices w"
  "thread (last_published fs w) = thread w"
  "threads (last_published fs w) = threads w"
  by (simp_all add: last_published_def)

lemma capture_finally_fields [simp]:
  "running (capture_finally w) = False"
  "camera (capture_finally w) = None"
  "has_attrs (capture_finally w) = has_attrs w"
  "frame_bytes (capture_finally w) = frame_bytes w"
  "last_frame_time (capture_finally w) = last_frame_time w"
  "thread (capture_finally w) = thread w"
  "threads (capture_finally w) = threads w"
  by (simp_all add: capture_finally_def camera_close_def Let_def split: option.splits)

lemma thread_exit_fields [simp]:
  "running (thread_exit w) = running w"
  "camera (thread_exit w) = camera w"
  "has_attrs (thread_exit w) = has_attrs w"
  "frame_bytes (thread_exit w) = frame_bytes w"
  "last_frame_time (thread_exit w) = last_frame_time w"
  "devices (thread_exit w) = devices w"
  "thread (thread_exit w) = thread w"
  by (simp_all add: thread_exit_def split: option.splits)






subsection \<open>stop\<close>




lemma capture_body_not_running:
  "\<not> running w \<Longrightarrow>
   capture_body evs w =
     (case evs of [] \<Rightarrow> (Blocked, w) | Raise e # _ \<Rightarrow> (Raised e, w) | _ \<Rightarrow> (Left, w))"
proof (cases evs)
  case Nil
  then show ?thesis by simp
next
  case (Cons ev rest)
  assume "\<not> running w"
  with Cons show ?thesis by (cases ev) simp_all
qed

lemma capture_resume_not_running:
  "has_attrs w \<Longrightarrow> \<not> running w \<Longrightarrow>
   capture_resume evs w = (None, if evs = [] then w else thread_exit (capture_finally w))"
  by (simp add: capture_resume_def capture_body_not_running
      split: list.splits capture_event.splits)









lemma camera_close_fields [simp]:
  "running (snd (camera_close c w)) = running w"
  "has_attrs (snd (camera_close c w)) = has_attrs w"
  "camera (snd (camera_close c w)) = camera w"
  "frame_bytes (snd (camera_close c w)) = frame_bytes w"
  by (simp_all add: camera_close_def Let_def)

lemma capture_thread_run_stopped:
  assumes "has_attrs w" and "\<not> running w"
  shows "has_attrs (capture_thread_run evs w)" and "\<not> running (capture_thread_run evs w)"
  using assms
  by (simp_all add: capture_thread_run_def capture_resume_not_running)

lemma stop_fields:
  assumes "has_attrs w"
  shows "fst (stop True evs w) = None" and "has_attrs (snd (stop True evs w))"
    and "\<not> running (snd (stop True evs w))" and "camera (snd (stop True evs w)) = None"
    and "frame_bytes (snd (stop True evs w)) = None"
proof -
  let ?w1 = "w\<lparr>running := False\<rparr>"
  have a: "has_attrs ?w1" and b: "\<not> running ?w1" using assms by simp_all
  note t = capture_thread_run_stopped[OF a b, of evs]
  show "fst (stop True evs w) = None" using assms by (simp add: stop_def Let_def)
  show "has_attrs (snd (stop True evs w))"
    using assms t by (simp add: stop_def Let_def split: option.splits)
  show "\<not> running (snd (stop True evs w))"
    using assms t by (simp add: stop_def Let_def split: option.splits)
  show "camera (snd (stop True evs w)) = None" using assms by (simp add: stop_def Let_def)
  show "frame_bytes (snd (stop True evs w)) = None" using assms by (simp add: stop_def Let_def)
qed

lemma capture_finally_stopped:
  "camera w = None \<Longrightarrow> \<not> running w \<Longrightarrow> capture_finally w = w"
  by (simp add: capture_finally_def)

lemma capture_thread_run_on_stopped:
  assumes "has_attrs w" and "\<not> running w" and "camera w = None"
  shows "capture_thread_run evs w =
           (if thread_is_alive w \<and> evs \<noteq> [] then thread_exit w else w)"
  using assms
  by (simp add: capture_thread_run_def capture_resume_not_running capture_finally_stopped)

lemma stop_on_stopped:
  assumes "has_attrs w" and "\<not> running w" and "camera w = None" and "frame_bytes w = None"
  shows "stop True evs w =
           (None, if thread_is_alive w \<and> evs \<noteq> [] then thread_exit w else w)"
proof -
  have w1: "w\<lparr>running := False\<rparr> = w" using assms(2) by simp
  have alive: "thread_is_alive w \<Longrightarrow> thread w \<noteq> None"
    by (auto simp: thread_is_alive_def split: option.splits)
  have c: "camera (thread_exit w) = None" and f: "frame_bytes (thread_exit w) = None"
    using assms by simp_all
  have e: "(thread_exit w)\<lparr>camera := None, frame_bytes := None\<rparr> = thread_exit w"
    using c f by simp
  have e': "w\<lparr>camera := None, frame_bytes := None\<rparr> = w"
    using assms by simp
  show ?thesis
    using assms alive c
    by (simp add: stop_def Let_def w1 capture_thread_run_on_stopped e e')
qed

text \<open>
  Claim C8: on any handler with its attributes, two calls of \<open>stop()\<close> in a row raise
  nothing; after the first and after the second \<open>running\<close> is false, the handle is
  \<open>None\<close> and \<open>frame_bytes\<close> is \<open>None\<close>; the second call closes no camera and changes
  no field of the handler. All it can change is the liveness of the capture thread, when
  a thread that outlived the first join ends during the second.
\<close>

theorem stop_twice_same_as_once:
  assumes "has_attrs w"
  shows
    "let r1 = stop True evs1 w; r2 = stop True evs2 (snd r1)
     in fst r1 = None \<and> fst r2 = None \<and>
        \<not> running (snd r1) \<and> camera (snd r1) = None \<and> frame_bytes (snd r1) = None \<and>
        \<not> running (snd r2) \<and> camera (snd r2) = None \<and> frame_bytes (snd r2) = None \<and>
        devices (snd r2) = devices (snd r1) \<and>
        (snd r2)\<lparr>threads := threads (snd r1)\<rparr> = snd r1"
proof -
  let ?w1 = "snd (stop True evs1 w)"
  note f = stop_fields[OF assms, of evs1]
  note s = stop_on_stopped[OF f(2) f(3) f(4) f(5), of evs2]
  show ?thesis
    using f by (simp add: Let_def s thread_exit_def split: option.splits)
qed

lemma stop_after_frame_eq:
  "stop True [Frame ''NEXT'' 11] (snd (capture_loop True [Frame ''JPEG'' 10] started_handler)) =
     (None, started_handler\<lparr>last_frame_time := 10,
        running := False, camera := None,
        devices := [\<lparr>cam_closed = True, close_calls = 1, close_raises = None,
                   cam_resolution = Some (640, 480), cam_framerate = Some 20\<rparr>],
        threads := [False]\<rparr>)"
  by (simp add: started_handler_eq capture_loop_def capture_resume_def capture_finally_def
      camera_close_def thread_exit_def Let_def stop_def thread_is_alive_def
      capture_thread_run_def)

theorem stop_twice_same_as_once_witness:
  "has_attrs (snd (capture_loop True [Frame ''JPEG'' 10] started_handler)) \<and>
   stop True [Frame ''NEXT'' 11] (snd (capture_loop True [Frame ''JPEG'' 10] started_handler)) =
     (None, started_handler\<lparr>last_frame_time := 10,
        running := False, camera := None,
        devices := [\<lparr>cam_closed = True, close_calls = 1, close_raises = None,
                   cam_resolution = Some (640, 480), cam_framerate = Some 20\<rparr>],
        threads := [False]\<rparr>) \<and>
   stop True []
     (snd (stop True [Frame ''NEXT'' 11]
        (snd (capture_loop True [Frame ''JPEG'' 10] started_handler)))) =
   stop True [Frame ''NEXT'' 11] (snd (capture_loop True [Frame ''JPEG'' 10] started_handler))"
proof -
  let ?w = "snd (capture_loop True [Frame ''JPEG'' 10] started_handler)"
  have a: "has_attrs ?w"
    by (simp add: started_handler_eq capture_loop_def capture_resume_def)
  note t = stop_twice_same_as_once[OF a, of "[Frame ''NEXT'' 11]" "[]"]
  have second: "stop True [] (snd (stop True [Frame ''NEXT'' 11] ?w)) =
                stop True [Frame ''NEXT'' 11] ?w"
    unfolding stop_after_frame_eq
    by (simp add: started_handler_eq stop_def Let_def thread_is_alive_def)
  show ?thesis using a t second stop_after_frame_eq by simp
qed

section \<open>Properties of the frame slot under the lock\<close>

lemma inv_owner: "slot_inv s \<Longrightarrow> holding (pcs s i) \<Longrightarrow> lock s = Some i"
  by (simp add: slot_inv_def)

lemma inv_call:
  assumes "slot_inv s" and "pcs s i = Idle" and "\<not> holding p"
  shows "slot_inv (goto i p s)"
proof (cases "lock s")
  case None
  with assms show ?thesis
    by (auto simp: slot_inv_def goto_def consistent_def split: option.splits)
next
  case (Some k)
  show ?thesis
  proof (cases "k = i")
    case True
    with Some assms show ?thesis
      by (cases p) (auto simp: slot_inv_def goto_def consistent_def split: option.splits)
  next
    case False
    with Some assms show ?thesis
      by (cases "pcs s k")
        (auto simp: slot_inv_def goto_def consistent_def split: option.splits)
  qed
qed

lemma inv_call_publish: "slot_inv s \<Longrightarrow> slot_inv (step (Call_publish i b) s)"
  by (simp add: inv_call)

lemma inv_call_read: "slot_inv s \<Longrightarrow> slot_inv (step (Call_read i) s)"
  by (simp add: inv_call)

lemma inv_pub_wait: "slot_inv s \<Longrightarrow> pcs s i = Pub_wait b \<Longrightarrow> slot_inv (step (Step i now) s)"
  by (auto simp: slot_inv_def goto_def consistent_def split: option.splits)

lemma inv_pub_store:
  assumes "slot_inv s" and "pcs s i = Pub_store b" shows "slot_inv (step (Step i now) s)"
proof -
  have "lock s = Some i" using inv_owner[OF assms(1), of i] assms(2) by simp
  with assms show ?thesis
    by (auto simp: slot_inv_def goto_def consistent_def split: option.splits)
qed

lemma inv_pub_stamp:
  assumes "slot_inv s" and "pcs s i = Pub_stamp b" shows "slot_inv (step (Step i now) s)"
proof -
  have "lock s = Some i" using inv_owner[OF assms(1), of i] assms(2) by simp
  with assms show ?thesis
    by (auto simp: slot_inv_def goto_def consistent_def split: option.splits)
qed

lemma inv_pub_exit:
  assumes "slot_inv s" and "pcs s i = Pub_exit" shows "slot_inv (step (Step i now) s)"
proof -
  have "lock s = Some i" using inv_owner[OF assms(1), of i] assms(2) by simp
  with assms show ?thesis
    by (auto simp: slot_inv_def goto_def consistent_def split: option.splits)
qed

lemma inv_read_wait: "slot_inv s \<Longrightarrow> pcs s i = Read_wait \<Longrightarrow> slot_inv (step (Step i now) s)"
  by (auto simp: slot_inv_def goto_def consistent_def split: option.splits)

lemma inv_read_test:
  assumes "slot_inv s" and "pcs s i = Read_test" shows "slot_inv (step (Step i now) s)"
proof -
  have "lock s = Some i" using inv_owner[OF assms(1), of i] assms(2) by simp
  with assms show ?thesis
    by (auto simp: slot_inv_def goto_def consistent_def split: option.splits)
qed

lemma inv_read_age:
  assumes "slot_inv s" and "pcs s i = Read_age" shows "slot_inv (step (Step i now) s)"
proof -
  have "lock s = Some i" using inv_owner[OF assms(1), of i] assms(2) by simp
  with assms show ?thesis
    by (auto simp: slot_inv_def goto_def consistent_def split: option.splits)
qed

lemma inv_read_return:
  assumes "slot_inv s" and "pcs s i = Read_return t" shows "slot_inv (step (Step i now) s)"
proof -
  have "lock s = Some i" using inv_owner[OF assms(1), of i] assms(2) by simp
  with assms show ?thesis
    by (auto simp: slot_inv_def goto_def consistent_def split: option.splits)
qed

lemma inv_read_exit:
  assumes "slot_inv s" and "pcs s i = Read_exit" shows "slot_inv (step (Step i now) s)"
proof -
  have "lock s = Some i" using inv_owner[OF assms(1), of i] assms(2) by simp
  with assms show ?thesis
    by (auto simp: slot_inv_def goto_def consistent_def split: option.splits)
qed


lemma slot_inv_step: "slot_inv s \<Longrightarrow> slot_inv (step a s)"
proof (cases a)
  case (Step i now)
  assume inv: "slot_inv s"
  show ?thesis
    unfolding Step
    using inv inv_pub_wait inv_pub_store inv_pub_stamp inv_pub_exit inv_read_wait
      inv_read_test inv_read_age inv_read_return inv_read_exit
    by (cases "pcs s i") (simp_all del: step.simps, simp)
qed (simp_all add: inv_call_publish inv_call_read del: step.simps)

lemma slot_inv_run: "slot_inv s \<Longrightarrow> slot_inv (run acts s)"
  by (induction acts arbitrary: s) (simp_all add: slot_inv_step del: step.simps)

lemma conc_init_is_main_handler: "world.truncate conc_init = main_handler"
  by (simp add: conc_init_def main_handler_def init_def world.truncate_def)

lemma slot_inv_init: "slot_inv conc_init"
  by (simp add: slot_inv_def conc_init_def consistent_def)

text \<open>No two threads are inside a critical section at once.\<close>

lemma mutual_exclusion:
  assumes "holding (pcs (run acts conc_init) i)" and "holding (pcs (run acts conc_init) j)"
  shows "i = j"
proof -
  note inv = slot_inv_run[OF slot_inv_init, of acts]
  from inv_owner[OF inv assms(1)] inv_owner[OF inv assms(2)] show ?thesis by simp
qed

text \<open>
  The log \<open>published\<close> records what the slot holds when line 147 has run: the bytes
  that the same thread stored at line 146 and the time stamp it has just written.
\<close>

lemma publish_logs_slot_contents:
  assumes "slot_inv s" and "pcs s i = Pub_stamp b"
  shows "frame_bytes (step (Step i now) s) = Some b \<and>
         last_frame_time (step (Step i now) s) = now \<and>
         published (step (Step i now) s) = (b, now) # published s"
proof -
  have "lock s = Some i" using inv_owner[OF assms(1), of i] assms(2) by simp
  with assms show ?thesis by (simp add: slot_inv_def goto_def)
qed

text \<open>
  Claim C1: under every schedule of publishes and reads by any number of threads, what a
  read returns at line 184, paired with the time stamp it compared at line 183, is a pair
  that one single publish wrote.
\<close>

theorem read_returns_single_publish:
  "(r, t) \<in> set (returned (run acts conc_init)) \<Longrightarrow>
   \<exists>b. r = Some b \<and> (b, t) \<in> set (published (run acts conc_init))"
  using slot_inv_run[OF slot_inv_init, of acts]
  by (auto simp: slot_inv_def)

lemma example_schedule_run:
  "returned (run example_schedule conc_init) = [(Some ''JPEG'', 5)] \<and>
   published (run example_schedule conc_init) = [(''JPEG'', 5)] \<and>
   lock (run example_schedule conc_init) = None"
  by (simp add: example_schedule_def conc_init_def goto_def)

theorem read_returns_single_publish_witness:
  "(Some ''JPEG'', 5) \<in> set (returned (run example_schedule conc_init)) \<and>
   (''JPEG'', 5) \<in> set (published (run example_schedule conc_init))"
proof -
  have a: "(Some ''JPEG'', 5) \<in> set (returned (run example_schedule conc_init))"
    by (simp add: example_schedule_run)
  from read_returns_single_publish[OF a] a show ?thesis by simp
qed

text \<open>
  The slot does pass through a mixed state: between lines 146 and 147 of a second
  publish it holds the new bytes with the old time stamp, a pair no publish wrote. The
  lock is what keeps readers from it: the reader of this schedule is still waiting.
\<close>

lemma torn_inside_critical_section:
  "frame_bytes (run torn_schedule conc_init) = Some ''NEW'' \<and>
   last_frame_time (run torn_schedule conc_init) = 5 \<and>
   published (run torn_schedule conc_init) = [(''OLD'', 5)] \<and>
   lock (run torn_schedule conc_init) = Some 0 \<and>
   pcs (run torn_schedule conc_init) 1 = Read_wait"
  by (simp add: torn_schedule_def conc_init_def goto_def)

end
